theory Spec2Isabelle
  imports Complex_Main "HOL-Library.Sublist"
begin

section \<open>The registry schema\<close>

text \<open>
  The Document Registry keeps three tables, created by the migrations
  \<^verbatim>\<open>001_create_registry_documents\<close>, \<^verbatim>\<open>002_create_document_provenance\<close>,
  \<^verbatim>\<open>003_create_state_audit_log\<close> and altered by
  \<^verbatim>\<open>004_add_deleted_at_and_content_hash_unique\<close>. A table is the list of its rows in
  insertion order. A \<^verbatim>\<open>UUID\<close> is a natural number, a \<^verbatim>\<open>TIMESTAMPTZ\<close> the number of
  microseconds since the epoch, a nullable column an \<open>option\<close>, and a \<^verbatim>\<open>JSONB\<close> object an
  association list from keys to serialised values.
\<close>

type_synonym uuid = nat
type_synonym timestamptz = nat
type_synonym jsonb = "(string \<times> string) list"

text \<open>\<^verbatim>\<open>CREATE TYPE document_status AS ENUM ('registered', 'processing', 'indexed', 'failed')\<close>\<close>

datatype document_status = registered | processing | indexed | failed

text \<open>
  \<^verbatim>\<open>CREATE TABLE registry_documents\<close>, with the column \<^verbatim>\<open>deleted_at\<close> of migration 004.
  The columns \<^verbatim>\<open>subtitle\<close>, \<^verbatim>\<open>journal\<close> and \<^verbatim>\<open>authors\<close> carry descriptive metadata
  that no constraint, trigger or registry decision reads; they are left out.
\<close>

record registry_document =
  document_id :: uuid
  doi :: "string option"
  content_hash :: string
  title :: string
  title_normalized :: string
  year :: "int option"
  source_metadata :: jsonb
  status :: document_status
  error_message :: "string option"
  artifact_pointers :: jsonb
  created_at :: timestamptz
  updated_at :: timestamptz
  last_processed_at :: "timestamptz option"
  deleted_at :: "timestamptz option"

text \<open>
  What an \<^verbatim>\<open>INSERT\<close> can be refused for: a value longer than its \<^verbatim>\<open>VARCHAR(n)\<close> column,
  or a violated \<^verbatim>\<open>PRIMARY KEY\<close> or \<^verbatim>\<open>UNIQUE\<close> constraint, named as PostgreSQL names it.
\<close>

datatype store_error =
    StringDataRightTruncation string
  | UniqueViolation string

definition varchar_fits :: "nat \<Rightarrow> string option \<Rightarrow> bool" where
  "varchar_fits n v = (case v of None \<Rightarrow> True | Some s \<Rightarrow> length s \<le> n)"

text \<open>
  \<^verbatim>\<open>doi VARCHAR(255) UNIQUE\<close>: two rows conflict when both hold the same non-null DOI.
\<close>

definition doi_conflict :: "registry_document \<Rightarrow> registry_document \<Rightarrow> bool" where
  "doi_conflict new old = (doi new \<noteq> None \<and> doi old = doi new)"

text \<open>
  \<^verbatim>\<open>UNIQUE (content_hash, title_normalized, year)\<close>: a null \<^verbatim>\<open>year\<close> is distinct from
  every other null, so only rows with a year can conflict.
\<close>

definition composite_conflict :: "registry_document \<Rightarrow> registry_document \<Rightarrow> bool" where
  "composite_conflict new old =
     (content_hash old = content_hash new \<and> title_normalized old = title_normalized new
      \<and> year new \<noteq> None \<and> year old = year new)"

text \<open>
  \<^verbatim>\<open>ADD CONSTRAINT registry_documents_content_hash_unique UNIQUE (content_hash)\<close> of
  migration 004. The constraint has no \<^verbatim>\<open>WHERE\<close> clause: it compares the new row with
  every row of the table, whatever its \<^verbatim>\<open>deleted_at\<close>.
\<close>

definition content_hash_conflict :: "registry_document \<Rightarrow> registry_document \<Rightarrow> bool" where
  "content_hash_conflict new old = (content_hash old = content_hash new)"

text \<open>\<^verbatim>\<open>INSERT INTO registry_documents\<close>: the row is appended when no constraint refuses it.\<close>

definition insert_document ::
  "registry_document \<Rightarrow> registry_document list \<Rightarrow> store_error + registry_document list" where
  "insert_document new rows =
     (if \<not> varchar_fits 255 (doi new) then Inl (StringDataRightTruncation ''doi'')
      else if \<not> length (content_hash new) \<le> 64
        then Inl (StringDataRightTruncation ''content_hash'')
      else if list_ex (\<lambda>old. document_id old = document_id new) rows
        then Inl (UniqueViolation ''registry_documents_pkey'')
      else if list_ex (doi_conflict new) rows
        then Inl (UniqueViolation ''registry_documents_doi_key'')
      else if list_ex (composite_conflict new) rows
        then Inl (UniqueViolation ''registry_documents_content_hash_title_normalized_year_key'')
      else if list_ex (content_hash_conflict new) rows
        then Inl (UniqueViolation ''registry_documents_content_hash_unique'')
      else Inr (rows @ [new]))"

text \<open>
  The row an \<^verbatim>\<open>INSERT\<close> builds from the columns without a default and the defaults of the
  others: \<^verbatim>\<open>document_id DEFAULT gen_random_uuid()\<close> (the generated value is the argument
  \<open>gen\<close>), \<^verbatim>\<open>source_metadata DEFAULT '{}'\<close>,
  \<^verbatim>\<open>status DEFAULT 'registered'\<close>, \<^verbatim>\<open>artifact_pointers DEFAULT '{}'\<close>,
  \<^verbatim>\<open>created_at DEFAULT NOW()\<close>, \<^verbatim>\<open>updated_at DEFAULT NOW()\<close>, null elsewhere.
\<close>

definition default_row :: "uuid \<Rightarrow> timestamptz \<Rightarrow> string \<Rightarrow> string \<Rightarrow> string \<Rightarrow> registry_document" where
  "default_row gen now hash ttl ttl_norm =
     \<lparr> document_id = gen, doi = None, content_hash = hash, title = ttl,
       title_normalized = ttl_norm, year = None,
       source_metadata = [], status = registered, error_message = None,
       artifact_pointers = [], created_at = now, updated_at = now,
       last_processed_at = None, deleted_at = None \<rparr>"

text \<open>
  The trigger function of migration 001,
  \<^verbatim>\<open>NEW.updated_at = NOW(); RETURN NEW;\<close>.
  \<^verbatim>\<open>NOW()\<close> is the start time of the transaction that runs the statement; it is the
  argument \<open>now\<close>.
\<close>

definition update_updated_at_column :: "timestamptz \<Rightarrow> registry_document \<Rightarrow> registry_document" where
  "update_updated_at_column now NEW = NEW\<lparr>updated_at := now\<rparr>"

text \<open>
  \<^verbatim>\<open>CREATE TRIGGER update_registry_documents_updated_at BEFORE UPDATE ON registry_documents
  FOR EACH ROW\<close>: an \<^verbatim>\<open>UPDATE\<close> builds the row \<^verbatim>\<open>NEW\<close> from the old one with its
  \<^verbatim>\<open>SET\<close> clause, the trigger rewrites \<^verbatim>\<open>NEW\<close>, and the rewritten row is stored.
\<close>

definition update_row ::
  "timestamptz \<Rightarrow> (registry_document \<Rightarrow> registry_document) \<Rightarrow> registry_document \<Rightarrow> registry_document" where
  "update_row now set_clause OLD = update_updated_at_column now (set_clause OLD)"

text \<open>\<^verbatim>\<open>UPDATE registry_documents SET ... WHERE document_id = did\<close>.\<close>

definition update_document ::
  "timestamptz \<Rightarrow> uuid \<Rightarrow> (registry_document \<Rightarrow> registry_document) \<Rightarrow> registry_document list
     \<Rightarrow> registry_document list" where
  "update_document now did set_clause rows =
     map (\<lambda>r. if document_id r = did then update_row now set_clause r else r) rows"

text \<open>\<^verbatim>\<open>SET status = s\<close>, the clause of a state transition.\<close>

definition set_status :: "document_status \<Rightarrow> registry_document \<Rightarrow> registry_document" where
  "set_status s r = r\<lparr>status := s\<rparr>"

text \<open>
  A row used in the examples: the document of the spec's scenario, inserted by a
  transaction that began at time 20.
\<close>

definition solar_row :: registry_document where
  "solar_row = (default_row 1 20 (replicate 64 CHR ''a'') ''Solar Flare Analysis Study''
                  ''solar flare analysis study'')\<lparr>year := Some 2024\<rparr>"

text \<open>
  \<^verbatim>\<open>CREATE TABLE document_provenance\<close> (migration 002). The column \<^verbatim>\<open>source\<close> holds one of
  the origins its comment lists. A column whose name \<^verbatim>\<open>registry_documents\<close> already uses
  carries a prefix. This table and the next reference
  \<^verbatim>\<open>registry_documents(document_id) ON DELETE CASCADE\<close>; the registry deletes no row of
  \<^verbatim>\<open>registry_documents\<close> (removal is the mark \<^verbatim>\<open>deleted_at\<close>), so no cascade is modelled.
\<close>

datatype source = upload | crossref | semantic_scholar | arxiv | scixplorer

fun source_name :: "source \<Rightarrow> string" where
  "source_name upload = ''upload''"
| "source_name crossref = ''crossref''"
| "source_name semantic_scholar = ''semantic_scholar''"
| "source_name arxiv = ''arxiv''"
| "source_name scixplorer = ''scixplorer''"

record document_provenance =
  provenance_id :: uuid
  prov_document_id :: uuid
  prov_source :: source
  source_query :: "string option"
  source_identifier :: "string option"
  connector_job_id :: "uuid option"
  upload_id :: "uuid option"
  user_id :: uuid
  metadata_snapshot :: jsonb
  prov_created_at :: timestamptz

text \<open>\<^verbatim>\<open>CREATE TABLE document_state_audit\<close> (migration 003).\<close>

record document_state_audit =
  audit_id :: uuid
  audit_document_id :: uuid
  previous_state :: "document_status option"
  new_state :: document_status
  audit_worker_id :: "string option"
  audit_error_message :: "string option"
  audit_created_at :: timestamptz

text \<open>
  \<^verbatim>\<open>DEFAULT gen_random_uuid()\<close>: the generated identifier differs from every identifier of
  the table; the model takes the successor of the largest one.
\<close>

definition gen_random_uuid :: "uuid list \<Rightarrow> uuid" where
  "gen_random_uuid used = Suc (foldr max used 0)"

text \<open>
  The queues of the LocalStack initialisation script: \<^verbatim>\<open>document-registered\<close> and its
  dead-letter queue \<^verbatim>\<open>document-registered-dlq\<close>, bound by the redrive policy
  \<^verbatim>\<open>"maxReceiveCount":3\<close>.
\<close>

definition maxReceiveCount :: nat where
  "maxReceiveCount = 3"

section \<open>The registry service\<close>

text \<open>
  The migrations and the queue set-up are the registry code at hand; the Python modules
  that the implementation plan announces (\<^verbatim>\<open>api/routes.py\<close>, \<^verbatim>\<open>api/schemas.py\<close>,
  \<^verbatim>\<open>core/dedup.py\<close>, \<^verbatim>\<open>core/state_machine.py\<close>, \<^verbatim>\<open>core/normalizers.py\<close>,
  \<^verbatim>\<open>db/repository.py\<close>, \<^verbatim>\<open>events/publisher.py\<close>) are not. Every definition of this section
  whose comment starts with \<open>Modelled from the spec\<close> follows the specification of the
  registry in their place; each reads and writes the tables through the operations of the
  previous section.
\<close>

subsection \<open>Requests, events and the registry state\<close>

text \<open>
  Modelled from the spec: the registration request of section 6 (the request model of
  the missing \<^verbatim>\<open>api/schemas.py\<close>), without the descriptive fields \<^verbatim>\<open>authors[]\<close> and
  \<^verbatim>\<open>journal\<close>. \<^verbatim>\<open>source_metadata\<close> is the serialised data the submitting source sends.
\<close>

record registration_request =
  req_doi :: "string option"
  req_content_hash :: string
  req_title :: string
  req_year :: "int option"
  req_source :: source
  req_upload_id :: "uuid option"
  req_connector_job_id :: "uuid option"
  req_user_id :: uuid
  req_source_metadata :: "string option"

text \<open>
  Modelled from the spec: the \<^verbatim>\<open>DocumentRegistered\<close> event of section 6 as a row of the
  outbox, with the number of delivery attempts made so far. The source location and the
  correlation id, which the caller's context supplies, are left out.
\<close>

record outbox_event =
  ev_document_id :: uuid
  ev_content_hash :: string
  ev_doi :: "string option"
  ev_title :: string
  ev_user_id :: uuid
  ev_timestamp :: timestamptz
  delivery_attempts :: nat

text \<open>
  Modelled from the spec: the Metadata Store of section 4.1 (the three tables) together
  with the outbox of pending events and the dead-letter path of section 4.4.
\<close>

record registry =
  documents :: "registry_document list"
  provenance :: "document_provenance list"
  audit :: "document_state_audit list"
  outbox :: "outbox_event list"
  dead_letter :: "outbox_event list"

definition empty_registry :: registry where
  "empty_registry = \<lparr> documents = [], provenance = [], audit = [], outbox = [], dead_letter = [] \<rparr>"

subsection \<open>Normalisation and validation\<close>

text \<open>
  Modelled from the spec: the character classes that the normalisation and format rules
  of sections 4.2 and 6 name (the missing \<^verbatim>\<open>core/normalizers.py\<close>), on ASCII text, each
  the list of its members: white space (space, tab, line feed, vertical tab, form feed,
  carriage return), decimal and hexadecimal digits, and the punctuation characters.
\<close>

definition is_space :: "char \<Rightarrow> bool" where
  "is_space c = (c \<in> set [CHR '' '', CHR 0x09, CHR 0x0A, CHR 0x0B, CHR 0x0C, CHR 0x0D])"

definition is_digit :: "char \<Rightarrow> bool" where
  "is_digit c = (c \<in> set ''0123456789'')"

definition is_hex_digit :: "char \<Rightarrow> bool" where
  "is_hex_digit c = (c \<in> set ''0123456789abcdefABCDEF'')"

definition is_punctuation :: "char \<Rightarrow> bool" where
  "is_punctuation c =
     (c \<in> set (''!#$%&()*+,-./:;<=>?@[]^_{|}~'' @ [CHR 0x22, CHR 0x27, CHR 0x5C, CHR 0x60]))"

text \<open>
  Modelled from the spec: the steps of the normalisation rules, "lowercase", "trim" and
  "collapse runs of whitespace to a single space".
\<close>

definition lowercase :: "string \<Rightarrow> string" where
  "lowercase s =
     map (\<lambda>c. case map_of (zip ''ABCDEFGHIJKLMNOPQRSTUVWXYZ'' ''abcdefghijklmnopqrstuvwxyz'') c of
                 Some l \<Rightarrow> l
               | None \<Rightarrow> c) s"

definition trim :: "string \<Rightarrow> string" where
  "trim s = rev (dropWhile is_space (rev (dropWhile is_space s)))"

fun collapse_whitespace :: "string \<Rightarrow> string" where
  "collapse_whitespace [] = []"
| "collapse_whitespace [c] = (if is_space c then '' '' else [c])"
| "collapse_whitespace (c # d # s) =
     (if is_space c then (if is_space d then collapse_whitespace (d # s)
                          else CHR '' '' # collapse_whitespace (d # s))
      else c # collapse_whitespace (d # s))"

text \<open>
  Modelled from the spec: title normalisation of section 4.2 (the missing
  \<^verbatim>\<open>core/normalizers.py\<close>), "lowercase, strip punctuation, collapse runs of whitespace to
  a single space, trim", on ASCII text.
\<close>

definition normalize_title :: "string \<Rightarrow> string" where
  "normalize_title t = trim (collapse_whitespace (filter (\<lambda>c. \<not> is_punctuation c) (lowercase t)))"

text \<open>Modelled from the spec: "strip leading protocol/host prefixes", one prefix.\<close>

definition strip_prefix :: "string \<Rightarrow> string \<Rightarrow> string" where
  "strip_prefix p s = (if take (length p) s = p then drop (length p) s else s)"

text \<open>
  Modelled from the spec: DOI normalisation of section 4.2 (the missing
  \<^verbatim>\<open>core/normalizers.py\<close>), "lowercase, strip leading protocol/host prefixes (e.g., a
  doi.org URL prefix), trim".
\<close>

definition normalize_doi :: "string \<Rightarrow> string" where
  "normalize_doi d =
     trim (strip_prefix ''doi.org/'' (strip_prefix ''dx.doi.org/''
       (strip_prefix ''http://'' (strip_prefix ''https://'' (lowercase d)))))"

text \<open>
  Modelled from the spec: the DOI a request submits, normalised; an absent DOI and the
  empty string both count as no DOI ("only when submitted DOI is non-empty").
\<close>

definition submitted_doi :: "registration_request \<Rightarrow> string option" where
  "submitted_doi req =
     (case req_doi req of None \<Rightarrow> None
      | Some d \<Rightarrow> (if d = [] then None else Some (normalize_doi d)))"

text \<open>
  Modelled from the spec: the format check on \<^verbatim>\<open>content_hash\<close> (the missing request
  validation), "required, fixed-length hex": the 64 hexadecimal digits of a SHA-256
  digest, the width of the column \<^verbatim>\<open>content_hash VARCHAR(64)\<close>.
\<close>

definition valid_content_hash :: "string \<Rightarrow> bool" where
  "valid_content_hash h = (length h = 64 \<and> list_all is_hex_digit h)"

text \<open>
  Modelled from the spec: the format check on a DOI (the missing request validation). The
  spec names the check and not the grammar; the model takes the usual shape of a DOI:
  the directory prefix \<^verbatim>\<open>10.\<close>, a registrant code of four digits or more, a slash and a
  non-empty suffix without white space, in all no longer than the column
  \<^verbatim>\<open>doi VARCHAR(255)\<close>.
\<close>

definition valid_doi :: "string \<Rightarrow> bool" where
  "valid_doi d =
     (let registrant = takeWhile is_digit (drop 3 d);
          rest = dropWhile is_digit (drop 3 d)
      in length d \<le> 255 \<and> take 3 d = ''10.'' \<and> 4 \<le> length registrant
         \<and> take 1 rest = ''/'' \<and> drop 1 rest \<noteq> [] \<and> \<not> list_ex is_space d)"

text \<open>
  Modelled from the spec: the error codes of section 6 that a request can be answered
  with, and \<open>INVALID_INPUT\<close> for the scenario's "rejected as invalid input (error_message
  required)".
\<close>

datatype error_code =
    INVALID_DOI
  | INVALID_CONTENT_HASH
  | DOCUMENT_NOT_FOUND
  | INVALID_STATE_TRANSITION
  | STATE_CONFLICT
  | INVALID_INPUT

text \<open>
  Modelled from the spec: the rejection path of section 4.2, which looks at the request
  alone.
\<close>

definition validate_request :: "registration_request \<Rightarrow> error_code option" where
  "validate_request req =
     (if \<not> valid_content_hash (req_content_hash req) then Some INVALID_CONTENT_HASH
      else case submitted_doi req of
             None \<Rightarrow> None
           | Some d \<Rightarrow> (if valid_doi d then None else Some INVALID_DOI))"

subsection \<open>The deduplication engine\<close>

text \<open>
  Modelled from the spec: the edit distance behind the ratio of rule 4 (insertions,
  deletions and substitutions, each of cost one), computed row by row.
  \<open>next_row c b prev left\<close> continues the row of the prefix extended by the character \<open>c\<close>
  from the row \<open>prev\<close> of the prefix before it; \<open>left\<close> is the cell just computed, which
  \<open>emit\<close> stores and hands on.
\<close>

definition min3 :: "nat \<Rightarrow> nat \<Rightarrow> nat \<Rightarrow> nat" where
  "min3 x y z = min x (min y z)"

fun next_row :: "char \<Rightarrow> string \<Rightarrow> nat list \<Rightarrow> nat \<Rightarrow> nat list"
  and emit :: "char \<Rightarrow> string \<Rightarrow> nat list \<Rightarrow> nat \<Rightarrow> nat list" where
  "next_row c (b # bs) (diag # up # prev) left =
     emit c bs (up # prev) (min3 (up + 1) (left + 1) (if c = b then diag else diag + 1))"
| "next_row c bs prev left = []"
| "emit c bs prev cell = cell # next_row c bs prev cell"

fun edit_rows :: "string \<Rightarrow> string \<Rightarrow> nat list \<Rightarrow> nat list" where
  "edit_rows [] b prev = prev"
| "edit_rows (c # cs) b [] = []"
| "edit_rows (c # cs) b (p # prev) = edit_rows cs b (emit c b (p # prev) (p + 1))"

definition edit_distance :: "string \<Rightarrow> string \<Rightarrow> nat" where
  "edit_distance a b = last (edit_rows a b [0 ..< Suc (length b)])"

text \<open>
  Modelled from the spec: the "normalized edit-distance similarity ratio" of rule 4 (the
  fuzzy-matching library call of the missing \<^verbatim>\<open>core/dedup.py\<close>): one minus the edit
  distance over the length of the longer title, as an exact fraction.
\<close>

definition similarity_ratio :: "string \<Rightarrow> string \<Rightarrow> rat" where
  "similarity_ratio a b =
     (if max (length a) (length b) = 0 then 1
      else 1 - Fract (int (edit_distance a b)) (int (max (length a) (length b))))"

text \<open>Modelled from the spec: "a ratio \<open>\<ge>\<close> 0.90 counts as a match".\<close>

definition fuzzy_threshold :: rat where
  "fuzzy_threshold = Fract 9 10"

text \<open>Modelled from the spec: the rule that decided a match, in the order of section 4.2.\<close>

datatype match_rule = Doi_match | Content_hash_match | Composite_match | Fuzzy_match

text \<open>
  Modelled from the spec: "deleted_at marks logical removal and excludes it from active
  indexes and from dedup matching".
\<close>

definition active :: "registry_document list \<Rightarrow> registry_document list" where
  "active rows = filter (\<lambda>r. deleted_at r = None) rows"

text \<open>
  Modelled from the spec: the candidates of rule 4 for a normalised title \<open>t\<close> and a year
  \<open>y\<close>, "existing non-deleted records with the same year" whose ratio is at least 0.90.
\<close>

definition fuzzy_candidates :: "string \<Rightarrow> int option \<Rightarrow> registry_document list \<Rightarrow> registry_document list" where
  "fuzzy_candidates t y rows =
     filter (\<lambda>r. year r = y \<and> fuzzy_threshold \<le> similarity_ratio (title_normalized r) t)
       (active rows)"

text \<open>
  Modelled from the spec: "the highest-scoring one is chosen; ties broken by earliest
  created_at". \<open>preferred t a b\<close>: the row \<open>a\<close> is chosen over the row \<open>b\<close>.
\<close>

definition preferred :: "string \<Rightarrow> registry_document \<Rightarrow> registry_document \<Rightarrow> bool" where
  "preferred t a b =
     (similarity_ratio (title_normalized b) t < similarity_ratio (title_normalized a) t
      \<or> (similarity_ratio (title_normalized a) t = similarity_ratio (title_normalized b) t
          \<and> created_at a < created_at b))"

fun best_candidate :: "string \<Rightarrow> registry_document list \<Rightarrow> registry_document option" where
  "best_candidate t [] = None"
| "best_candidate t (c # cs) =
     (case best_candidate t cs of
        None \<Rightarrow> Some c
      | Some d \<Rightarrow> (if preferred t d c then Some d else Some c))"

text \<open>
  Modelled from the spec: the four match rules of section 4.2, each a lookup among the
  non-deleted rows (the queries of the missing \<^verbatim>\<open>core/dedup.py\<close>).
\<close>

definition doi_rule :: "registration_request \<Rightarrow> registry_document list \<Rightarrow> registry_document option" where
  "doi_rule req rows =
     (case submitted_doi req of
        None \<Rightarrow> None
      | Some d \<Rightarrow> find (\<lambda>r. doi r = Some d) (active rows))"

definition content_hash_rule :: "registration_request \<Rightarrow> registry_document list \<Rightarrow> registry_document option" where
  "content_hash_rule req rows = find (\<lambda>r. content_hash r = req_content_hash req) (active rows)"

definition composite_rule :: "registration_request \<Rightarrow> registry_document list \<Rightarrow> registry_document option" where
  "composite_rule req rows =
     find (\<lambda>r. content_hash r = req_content_hash req
              \<and> title_normalized r = normalize_title (req_title req) \<and> year r = req_year req)
       (active rows)"

definition fuzzy_rule :: "registration_request \<Rightarrow> registry_document list \<Rightarrow> registry_document option" where
  "fuzzy_rule req rows =
     best_candidate (normalize_title (req_title req))
       (fuzzy_candidates (normalize_title (req_title req)) (req_year req) rows)"

text \<open>
  Modelled from the spec: \<^verbatim>\<open>check_duplicate\<close> of the missing \<^verbatim>\<open>core/dedup.py\<close>, "match
  order (first match wins, no further checks performed)".
\<close>

definition check_duplicate ::
  "registration_request \<Rightarrow> registry_document list \<Rightarrow> (match_rule \<times> registry_document) option" where
  "check_duplicate req rows =
     (case doi_rule req rows of
        Some r \<Rightarrow> Some (Doi_match, r)
      | None \<Rightarrow>
     (case content_hash_rule req rows of
        Some r \<Rightarrow> Some (Content_hash_match, r)
      | None \<Rightarrow>
     (case composite_rule req rows of
        Some r \<Rightarrow> Some (Composite_match, r)
      | None \<Rightarrow>
     (case fuzzy_rule req rows of
        Some r \<Rightarrow> Some (Fuzzy_match, r)
      | None \<Rightarrow> None))))"

subsection \<open>Registration\<close>

text \<open>
  Modelled from the spec: the merge of section 4.2 (\<^verbatim>\<open>merge_metadata\<close> of the missing
  \<^verbatim>\<open>core/dedup.py\<close>), "new source's data added under its own key, never overwriting
  another source's key"; section 3 has the map "merged not overwritten", so a key that is
  already there keeps its data.
\<close>

definition merge_source_metadata :: "jsonb \<Rightarrow> registration_request \<Rightarrow> jsonb" where
  "merge_source_metadata m req =
     (case req_source_metadata req of
        None \<Rightarrow> m
      | Some data \<Rightarrow>
          (case map_of m (source_name (req_source req)) of
             Some _ \<Rightarrow> m
           | None \<Rightarrow> m @ [(source_name (req_source req), data)]))"

text \<open>Modelled from the spec: the \<^verbatim>\<open>SET\<close> clause of the merge.\<close>

definition merge_update :: "registration_request \<Rightarrow> registry_document \<Rightarrow> registry_document" where
  "merge_update req row = row\<lparr>source_metadata := merge_source_metadata (source_metadata row) req\<rparr>"

text \<open>
  Modelled from the spec: the row of the "no match" path, "insert a record with
  status = registered", with the normalised title and DOI of section 4.2.
\<close>

definition new_document :: "uuid \<Rightarrow> timestamptz \<Rightarrow> registration_request \<Rightarrow> registry_document" where
  "new_document gen now req =
     (default_row gen now (req_content_hash req) (req_title req) (normalize_title (req_title req)))
       \<lparr> doi := submitted_doi req, year := req_year req,
         source_metadata := merge_source_metadata [] req \<rparr>"

text \<open>
  Modelled from the spec: the provenance entry of section 3, "source name, source
  query/identifier, submitting actor, a snapshot of metadata as submitted, timestamp".
\<close>

definition provenance_entry :: "uuid \<Rightarrow> timestamptz \<Rightarrow> uuid \<Rightarrow> registration_request \<Rightarrow> document_provenance" where
  "provenance_entry gen now did req =
     \<lparr> provenance_id = gen, prov_document_id = did, prov_source = req_source req,
       source_query = None, source_identifier = req_doi req,
       connector_job_id = req_connector_job_id req, upload_id = req_upload_id req,
       user_id = req_user_id req,
       metadata_snapshot = [(''title'', req_title req), (''content_hash'', req_content_hash req)],
       prov_created_at = now \<rparr>"

text \<open>Modelled from the spec: \<^verbatim>\<open>appendProvenance(id, entry)\<close> of section 4.1.\<close>

definition appendProvenance :: "timestamptz \<Rightarrow> uuid \<Rightarrow> registration_request \<Rightarrow> registry \<Rightarrow> registry" where
  "appendProvenance now did req st =
     st\<lparr>provenance := provenance st
          @ [provenance_entry (gen_random_uuid (map provenance_id (provenance st))) now did req]\<rparr>"

text \<open>
  Modelled from the spec: \<^verbatim>\<open>upsertOrFindByIdentity(candidate) \<rightarrow> (record, created)\<close> of
  section 4.1 (the missing \<^verbatim>\<open>db/repository.py\<close>): the insert is tried, and when "the
  store reject[s] an insert" on a uniqueness constraint the row that holds the identity is
  read back, for the "read-then-merge path".
\<close>

definition upsertOrFindByIdentity ::
  "registry_document \<Rightarrow> registry_document list
     \<Rightarrow> store_error + (registry_document \<times> bool \<times> registry_document list)" where
  "upsertOrFindByIdentity new rows =
     (case insert_document new rows of
        Inr rows' \<Rightarrow> Inr (new, True, rows')
      | Inl (UniqueViolation c) \<Rightarrow>
          (case find (\<lambda>r. content_hash_conflict new r \<or> doi_conflict new r) rows of
             Some r \<Rightarrow> Inr (r, False, rows)
           | None \<Rightarrow> Inl (UniqueViolation c))
      | Inl e \<Rightarrow> Inl e)"

text \<open>
  Modelled from the spec: the outbox row of the \<^verbatim>\<open>DocumentRegistered\<close> event for a new
  record (section 4.4).
\<close>

definition document_registered :: "timestamptz \<Rightarrow> registry_document \<Rightarrow> registration_request \<Rightarrow> outbox_event" where
  "document_registered now r req =
     \<lparr> ev_document_id = document_id r, ev_content_hash = content_hash r, ev_doi = doi r,
       ev_title = title r, ev_user_id = req_user_id req, ev_timestamp = now,
       delivery_attempts = 0 \<rparr>"

text \<open>
  Modelled from the spec: the registration response of section 6, \<^verbatim>\<open>queued\<close> with the
  new \<^verbatim>\<open>document_id\<close>, \<^verbatim>\<open>duplicate\<close> with the \<^verbatim>\<open>existing_document_id\<close>, \<^verbatim>\<open>rejected\<close>
  with its reason; \<open>Store_failure\<close> is the "internal/storage failure" of section 7.
\<close>

datatype registration_result =
    Queued uuid
  | Duplicate uuid
  | Rejected error_code
  | Store_failure store_error

text \<open>
  Modelled from the spec: the duplicate path of section 4.2, "merge source_metadata,
  append a new provenance entry, do not create a new record, do not emit a
  DocumentRegistered event". The merge is an \<^verbatim>\<open>UPDATE\<close> of the row.
\<close>

definition merge_duplicate :: "timestamptz \<Rightarrow> registration_request \<Rightarrow> registry_document \<Rightarrow> registry \<Rightarrow> registry" where
  "merge_duplicate now req r st =
     appendProvenance now (document_id r) req
       (st\<lparr>documents := update_document now (document_id r) (merge_update req) (documents st)\<rparr>)"

text \<open>
  Modelled from the spec: the new path of sections 4.2 and 4.4, one transaction that
  holds the record, its initiating provenance entry and the outbox event.
\<close>

definition register_new :: "timestamptz \<Rightarrow> registration_request \<Rightarrow> registry_document \<Rightarrow> registry_document list \<Rightarrow> registry \<Rightarrow> registry" where
  "register_new now req r rows' st =
     appendProvenance now (document_id r) req
       (st\<lparr>documents := rows', outbox := outbox st @ [document_registered now r req]\<rparr>)"

text \<open>
  Modelled from the spec: \<^verbatim>\<open>Register(candidate)\<close> of section 4.4 (the handler of
  \<^verbatim>\<open>POST /registry/documents\<close> in the missing \<^verbatim>\<open>api/routes.py\<close>): validation before any
  store access, then the deduplication check, then the atomic insert with its fall-back.
\<close>

definition Register :: "timestamptz \<Rightarrow> registration_request \<Rightarrow> registry \<Rightarrow> registration_result \<times> registry" where
  "Register now req st =
     (case validate_request req of
        Some code \<Rightarrow> (Rejected code, st)
      | None \<Rightarrow>
     (case check_duplicate req (documents st) of
        Some (rule, r) \<Rightarrow> (Duplicate (document_id r), merge_duplicate now req r st)
      | None \<Rightarrow>
     (case upsertOrFindByIdentity
             (new_document (gen_random_uuid (map document_id (documents st))) now req)
             (documents st) of
        Inl e \<Rightarrow> (Store_failure e, st)
      | Inr (r, created, rows') \<Rightarrow>
          (if created then (Queued (document_id r), register_new now req r rows' st)
           else (Duplicate (document_id r), merge_duplicate now req r st)))))"

subsection \<open>The lifecycle state machine\<close>

text \<open>
  Modelled from the spec: the transition table of section 4.3 (the missing
  \<^verbatim>\<open>core/state_machine.py\<close>), "allowed transitions only".
\<close>

fun valid_transition :: "document_status \<Rightarrow> document_status \<Rightarrow> bool" where
  "valid_transition registered processing = True"
| "valid_transition processing indexed = True"
| "valid_transition processing failed = True"
| "valid_transition failed processing = True"
| "valid_transition _ _ = False"

text \<open>Modelled from the spec: the state transition request of section 6.\<close>

record transition_request =
  tr_state :: document_status
  tr_expected_state :: "document_status option"
  tr_worker_id :: string
  tr_error_message :: "string option"
  tr_artifact_pointers :: "jsonb option"

text \<open>
  Modelled from the spec: \<^verbatim>\<open>error_message\<close> is "required iff target is failed"
  (section 6), "mandatory input when transitioning into failed, forbidden otherwise"
  (section 4.3).
\<close>

definition error_message_rule :: "transition_request \<Rightarrow> bool" where
  "error_message_rule req = ((tr_state req = failed) = (tr_error_message req \<noteq> None))"

text \<open>Modelled from the spec: \<^verbatim>\<open>getById(id) \<rightarrow> record | NotFound\<close> of section 4.1.\<close>

definition getById :: "uuid \<Rightarrow> registry_document list \<Rightarrow> registry_document option" where
  "getById did rows = find (\<lambda>r. document_id r = did) rows"

text \<open>
  Modelled from the spec: the columns a successful transition writes (section 4.3): the
  status, \<^verbatim>\<open>last_processed_at\<close>, the error message, and the artifact pointers when
  supplied, a supplied stage replacing the pointer stored for it.
\<close>

definition transition_update :: "timestamptz \<Rightarrow> transition_request \<Rightarrow> registry_document \<Rightarrow> registry_document" where
  "transition_update now req row =
     row\<lparr> status := tr_state req,
          error_message := tr_error_message req,
          artifact_pointers :=
            (case tr_artifact_pointers req of
               None \<Rightarrow> artifact_pointers row
             | Some ps \<Rightarrow> ps @ filter (\<lambda>kv. map_of ps (fst kv) = None) (artifact_pointers row)),
          last_processed_at := Some now \<rparr>"

text \<open>
  Modelled from the spec: \<^verbatim>\<open>conditionalUpdateStatus(id, expectedStatus, newStatus, fields)
  \<rightarrow> ok | Conflict\<close> of section 4.1, the "compare-and-swap on status" of section 5:
  \<^verbatim>\<open>UPDATE ... WHERE document_id = id AND status = expectedStatus\<close>, a conflict (\<open>None\<close>)
  when no row is updated.
\<close>

definition conditionalUpdateStatus ::
  "timestamptz \<Rightarrow> uuid \<Rightarrow> document_status \<Rightarrow> transition_request \<Rightarrow> registry_document list
     \<Rightarrow> registry_document list option" where
  "conditionalUpdateStatus now did expected req rows =
     (if list_ex (\<lambda>r. document_id r = did \<and> status r = expected) rows
      then Some (map (\<lambda>r. if document_id r = did \<and> status r = expected
                           then update_row now (transition_update now req) r else r) rows)
      else None)"

text \<open>
  Modelled from the spec: \<^verbatim>\<open>appendAudit(id, entry)\<close> of section 4.1 with the audit entry
  of section 3, "previous status, new status, acting worker, optional error, timestamp";
  a rejected attempt is recorded with the error it was rejected for.
\<close>

definition appendAudit ::
  "timestamptz \<Rightarrow> registry_document \<Rightarrow> transition_request \<Rightarrow> string option \<Rightarrow> registry \<Rightarrow> registry" where
  "appendAudit now d req err st =
     st\<lparr>audit := audit st
          @ [\<lparr> audit_id = gen_random_uuid (map audit_id (audit st)),
               audit_document_id = document_id d, previous_state = Some (status d),
               new_state = tr_state req, audit_worker_id = Some (tr_worker_id req),
               audit_error_message = err, audit_created_at = now \<rparr>]\<rparr>"

text \<open>
  Modelled from the spec: \<^verbatim>\<open>TransitionState(id, request)\<close> of section 4.4 (the handler of
  \<^verbatim>\<open>POST /registry/documents/{document_id}/state\<close>). The state machine reads the record
  and compares the request's \<^verbatim>\<open>expected_state\<close>, when there is one, with the status it
  read: "given a document at processing, a TransitionState call with expected_state =
  registered is rejected with STATE_CONFLICT", whatever its target. It then validates the
  transition from that status, validates the fields, and applies the transition with the
  store's conditional update on the status it read. Every attempt on an existing document
  appends one audit entry.
\<close>

definition TransitionState ::
  "timestamptz \<Rightarrow> uuid \<Rightarrow> transition_request \<Rightarrow> registry \<Rightarrow> (error_code + registry_document) \<times> registry" where
  "TransitionState now did req st =
     (case getById did (documents st) of
        None \<Rightarrow> (Inl DOCUMENT_NOT_FOUND, st)
      | Some d \<Rightarrow>
          (if (case tr_expected_state req of None \<Rightarrow> False | Some e \<Rightarrow> e \<noteq> status d)
             then (Inl STATE_CONFLICT, appendAudit now d req (Some ''STATE_CONFLICT'') st)
           else if \<not> valid_transition (status d) (tr_state req)
             then (Inl INVALID_STATE_TRANSITION,
                   appendAudit now d req (Some ''INVALID_STATE_TRANSITION'') st)
           else if \<not> error_message_rule req
             then (Inl INVALID_INPUT, appendAudit now d req (Some ''INVALID_INPUT'') st)
           else
             (case conditionalUpdateStatus now did (status d) req (documents st) of
                None \<Rightarrow> (Inl STATE_CONFLICT, appendAudit now d req (Some ''STATE_CONFLICT'') st)
              | Some rows' \<Rightarrow>
                  (case getById did rows' of
                     None \<Rightarrow> (Inl DOCUMENT_NOT_FOUND, st)
                   | Some d' \<Rightarrow>
                       (Inr d', appendAudit now d req (tr_error_message req)
                                  (st\<lparr>documents := rows'\<rparr>))))))"

subsection \<open>Reading a document, delivering events\<close>


text \<open>
  Modelled from the spec: one delivery attempt of the asynchronous forwarder of section
  4.4 (\<^verbatim>\<open>events/publisher.py\<close> and its dead-letter handling are missing) on the oldest
  pending event; \<open>delivered\<close> tells whether the transport accepted it. A failed attempt is
  counted, and the attempt that reaches \<open>maxReceiveCount\<close> moves the event to the
  dead-letter path.
\<close>

definition forward_event :: "bool \<Rightarrow> registry \<Rightarrow> registry" where
  "forward_event delivered st =
     (case outbox st of
        [] \<Rightarrow> st
      | e # es \<Rightarrow>
          (if delivered then st\<lparr>outbox := es\<rparr>
           else if maxReceiveCount \<le> Suc (delivery_attempts e)
             then st\<lparr>outbox := es,
                     dead_letter := dead_letter st @ [e\<lparr>delivery_attempts := Suc (delivery_attempts e)\<rparr>]\<rparr>
           else st\<lparr>outbox := e\<lparr>delivery_attempts := Suc (delivery_attempts e)\<rparr> # es\<rparr>))"


text \<open>
  Modelled from the spec: the operations that write to the registry, the two public ones
  and the forwarder's delivery attempts, and a run of them in sequence.
\<close>

datatype operation =
    Register_op timestamptz registration_request
  | TransitionState_op timestamptz uuid transition_request
  | Forward_op bool

fun apply_operation :: "operation \<Rightarrow> registry \<Rightarrow> registry" where
  "apply_operation (Register_op now req) st = snd (Register now req st)"
| "apply_operation (TransitionState_op now did req) st = snd (TransitionState now did req st)"
| "apply_operation (Forward_op delivered) st = forward_event delivered st"

fun run_operations :: "operation list \<Rightarrow> registry \<Rightarrow> registry" where
  "run_operations [] st = st"
| "run_operations (op # ops) st = run_operations ops (apply_operation op st)"

subsection \<open>Example requests\<close>

text \<open>The registration of the spec's scenario, and requests used with it in the examples.\<close>

definition solar_request :: registration_request where
  "solar_request =
     \<lparr> req_doi = None, req_content_hash = replicate 64 CHR ''a'',
       req_title = ''Solar Flare Analysis Study'', req_year = Some 2024, req_source = upload,
       req_upload_id = Some 7, req_connector_job_id = None, req_user_id = 5,
       req_source_metadata = None \<rparr>"


text \<open>
  The registry after the first registration of the scenario (document 1 is
  \<open>registered\<close>), and after worker \<open>w1\<close> has moved the document to \<open>processing\<close>.
\<close>

definition scenario_registry :: registry where
  "scenario_registry = snd (Register 20 solar_request empty_registry)"















section \<open>The store's constraints and trigger\<close>

text \<open>
  C7, as stated: \<^verbatim>\<open>content_hash\<close> uniqueness is scoped to non-deleted records, so that a
  row with hash \<open>H\<close> can be created while a soft-deleted row holds \<open>H\<close>. The store refuses:
  with one soft-deleted row holding the hash, the insert of a fresh row with the same hash
  (another id, another title, no DOI) violates
  \<^verbatim>\<open>registry_documents_content_hash_unique\<close>.
\<close>

theorem soft_deleted_hash_blocks_insert_counterexample:
  "insert_document (default_row 2 40 (replicate 64 CHR ''a'') ''Another Title'' ''another title'')
     [solar_row\<lparr>deleted_at := Some 30\<rparr>]
   = Inl (UniqueViolation ''registry_documents_content_hash_unique'')"
  by (simp add: insert_document_def default_row_def solar_row_def varchar_fits_def
      doi_conflict_def composite_conflict_def content_hash_conflict_def)

text \<open>
  C7, amended: \<^verbatim>\<open>content_hash\<close> uniqueness spans the whole table. While any row holds
  the hash, soft-deleted or not, every insert of a row with that hash is refused and the
  table keeps its rows, so no second record with the hash is created.
\<close>

theorem content_hash_unique_table_wide:
  assumes "old \<in> set rows" and "content_hash old = content_hash new"
  shows "\<exists>e. insert_document new rows = Inl e"
proof -
  have "list_ex (content_hash_conflict new) rows"
    using assms by (auto simp: content_hash_conflict_def list_ex_iff)
  then show ?thesis
    by (simp add: insert_document_def)
qed

theorem content_hash_unique_table_wide_witness:
  "solar_row\<lparr>deleted_at := Some 30\<rparr> \<in> set [solar_row\<lparr>deleted_at := Some 30\<rparr>]
   \<and> content_hash (solar_row\<lparr>deleted_at := Some 30\<rparr>)
       = content_hash (default_row 2 40 (replicate 64 CHR ''a'') ''Another Title'' ''another title'')
   \<and> (\<exists>e. insert_document
        (default_row 2 40 (replicate 64 CHR ''a'') ''Another Title'' ''another title'')
        [solar_row\<lparr>deleted_at := Some 30\<rparr>] = Inl e)"
proof -
  have a: "solar_row\<lparr>deleted_at := Some 30\<rparr> \<in> set [solar_row\<lparr>deleted_at := Some 30\<rparr>]"
    by simp
  have b: "content_hash (solar_row\<lparr>deleted_at := Some 30\<rparr>)
       = content_hash (default_row 2 40 (replicate 64 CHR ''a'') ''Another Title'' ''another title'')"
    by (simp add: solar_row_def default_row_def)
  show ?thesis
    using a b content_hash_unique_table_wide [OF a b] by blast
qed

text \<open>
  C10, as stated: after every \<^verbatim>\<open>UPDATE\<close>, \<^verbatim>\<open>updated_at\<close> differs from its old value and
  is at or after \<^verbatim>\<open>created_at\<close>. The trigger writes \<^verbatim>\<open>NOW()\<close>, the start time of the
  updating transaction, and compares nothing. A transaction that began at time 10 and
  updates a row created by a transaction that began at time 20 stores
  \<^verbatim>\<open>updated_at = 10\<close>, before \<^verbatim>\<open>created_at = 20\<close>; and an update in the very transaction
  that inserted the row leaves \<^verbatim>\<open>updated_at\<close> at the value it had.
\<close>

theorem updated_at_before_created_at_counterexample:
  "updated_at (update_row 10 (set_status processing) solar_row)
     < created_at (update_row 10 (set_status processing) solar_row)
   \<and> updated_at (update_row 20 (set_status processing) solar_row) = updated_at solar_row"
  by (simp add: update_row_def update_updated_at_column_def set_status_def solar_row_def
      default_row_def)

text \<open>
  C10, amended: every \<^verbatim>\<open>UPDATE\<close> of a row sets its \<^verbatim>\<open>updated_at\<close> to \<^verbatim>\<open>NOW()\<close> of the
  updating transaction, whatever the \<^verbatim>\<open>SET\<close> clause assigned to the column. The value
  changes whenever that time differs from the stored one, and it is at or after
  \<^verbatim>\<open>created_at\<close> whenever the statement leaves \<^verbatim>\<open>created_at\<close> alone and the transaction
  did not begin before \<^verbatim>\<open>created_at\<close>.
\<close>

theorem update_sets_updated_at_to_now:
  "updated_at (update_row now set_clause r) = now
   \<and> (now \<noteq> updated_at r \<longrightarrow> updated_at (update_row now set_clause r) \<noteq> updated_at r)
   \<and> (created_at (set_clause r) = created_at r \<and> created_at r \<le> now
        \<longrightarrow> created_at (update_row now set_clause r) \<le> updated_at (update_row now set_clause r))"
  by (simp add: update_row_def update_updated_at_column_def)

theorem update_sets_updated_at_to_now_witness:
  "updated_at (update_row 50 (set_status processing) solar_row) = 50
   \<and> 50 \<noteq> updated_at solar_row
   \<and> updated_at (update_row 50 (set_status processing) solar_row) \<noteq> updated_at solar_row
   \<and> created_at (set_status processing solar_row) = created_at solar_row
   \<and> created_at solar_row \<le> 50
   \<and> created_at (update_row 50 (set_status processing) solar_row)
       \<le> updated_at (update_row 50 (set_status processing) solar_row)"
  using update_sets_updated_at_to_now [of 50 "set_status processing" solar_row]
  by (simp add: set_status_def solar_row_def default_row_def)

section \<open>The example registries\<close>





section \<open>The lifecycle state machine\<close>

lemma documents_appendAudit: "documents (appendAudit now d req err st) = documents st"
  by (simp add: appendAudit_def)

lemma provenance_appendAudit: "provenance (appendAudit now d req err st) = provenance st"
  by (simp add: appendAudit_def)













section \<open>Registration\<close>





text \<open>The fields of the registry that the duplicate path touches, and those it does not.\<close>

lemma merge_duplicate_fields:
  "documents (merge_duplicate now req r st)
     = update_document now (document_id r) (merge_update req) (documents st)"
  "provenance (merge_duplicate now req r st)
     = provenance st @ [provenance_entry (gen_random_uuid (map provenance_id (provenance st)))
                          now (document_id r) req]"
  "audit (merge_duplicate now req r st) = audit st"
  "outbox (merge_duplicate now req r st) = outbox st"
  "dead_letter (merge_duplicate now req r st) = dead_letter st"
  by (simp_all add: merge_duplicate_def appendProvenance_def)

lemma register_new_fields:
  "documents (register_new now req r rows' st) = rows'"
  "provenance (register_new now req r rows' st)
     = provenance st @ [provenance_entry (gen_random_uuid (map provenance_id (provenance st)))
                          now (document_id r) req]"
  "audit (register_new now req r rows' st) = audit st"
  "outbox (register_new now req r rows' st) = outbox st @ [document_registered now r req]"
  "dead_letter (register_new now req r rows' st) = dead_letter st"
  by (simp_all add: register_new_def appendProvenance_def)

text \<open>The outcomes of \<open>Register\<close>, one per path.\<close>

lemma Register_cases:
  obtains (rejected) code where "validate_request req = Some code"
      and "Register now req st = (Rejected code, st)"
  | (duplicate) r where "validate_request req = None"
      and "Register now req st = (Duplicate (document_id r), merge_duplicate now req r st)"
  | (failure) e where "validate_request req = None" and "check_duplicate req (documents st) = None"
      and "Register now req st = (Store_failure e, st)"
  | (new) r rows' where "validate_request req = None" and "check_duplicate req (documents st) = None"
      and "insert_document r (documents st) = Inr rows'"
      and "r = new_document (gen_random_uuid (map document_id (documents st))) now req"
      and "Register now req st = (Queued (document_id r), register_new now req r rows' st)"
proof (cases "validate_request req")
  case (Some code)
  then show ?thesis
    using rejected by (simp add: Register_def)
next
  case None
  show ?thesis
  proof (cases "check_duplicate req (documents st)")
    case (Some m)
    then show ?thesis
      using None duplicate by (cases m) (simp add: Register_def)
  next
    case no_match: None
    let ?new = "new_document (gen_random_uuid (map document_id (documents st))) now req"
    show ?thesis
    proof (cases "insert_document ?new (documents st)")
      case (Inr rows')
      then have "Register now req st = (Queued (document_id ?new), register_new now req ?new rows' st)"
        using None no_match by (simp add: Register_def upsertOrFindByIdentity_def)
      then show ?thesis
        using None no_match Inr new by blast
    next
      case (Inl e)
      show ?thesis
      proof (cases "upsertOrFindByIdentity ?new (documents st)")
        case failed: (Inl e')
        then show ?thesis
          using None no_match failure by (simp add: Register_def)
      next
        case found: (Inr res)
        obtain r created rows' where res: "res = (r, created, rows')"
          by (cases res) auto
        have "\<not> created"
          using found Inl res
          by (auto simp: upsertOrFindByIdentity_def split: store_error.splits option.splits)
        then show ?thesis
          using None no_match found res duplicate by (simp add: Register_def)
      qed
    qed
  qed
qed

lemma insert_document_appends: "insert_document r rows = Inr rows' \<Longrightarrow> rows' = rows @ [r]"
  by (auto simp: insert_document_def split: if_splits)

lemma provenance_TransitionState: "provenance (snd (TransitionState now did req st)) = provenance st"
  by (auto simp: TransitionState_def provenance_appendAudit split: option.splits)

lemma provenance_forward_event: "provenance (forward_event delivered st) = provenance st"
  by (auto simp: forward_event_def split: list.splits)

lemma documents_forward_event: "documents (forward_event delivered st) = documents st"
  by (auto simp: forward_event_def split: list.splits)

lemma provenance_Register: "prefix (provenance st) (provenance (snd (Register now req st)))"
  by (cases rule: Register_cases [of req now st])
     (simp_all add: merge_duplicate_fields register_new_fields)

lemma provenance_apply_operation: "prefix (provenance st) (provenance (apply_operation op st))"
  by (cases op) (simp_all add: provenance_Register provenance_TransitionState provenance_forward_event)

text \<open>
  C9: provenance entries are append-only. Through every sequence of registrations, state
  transitions and delivery attempts, the provenance table of the start is a prefix of the
  table at the end: each entry written stays at its place, unchanged.
\<close>

theorem provenance_append_only:
  "prefix (provenance st) (provenance (run_operations ops st))"
proof (induction ops arbitrary: st)
  case Nil
  show ?case by simp
next
  case (Cons op ops)
  have "prefix (provenance st) (provenance (apply_operation op st))"
    by (rule provenance_apply_operation)
  also have "prefix \<dots> (provenance (run_operations ops (apply_operation op st)))"
    by (rule Cons.IH)
  finally show ?case by simp
qed

text \<open>
  C6: a request whose \<^verbatim>\<open>content_hash\<close> is not 64 hexadecimal digits, or whose DOI is
  malformed, is answered \<open>rejected\<close> with the reason \<open>INVALID_CONTENT_HASH\<close> or
  \<open>INVALID_DOI\<close>. The answer is the same whatever the store holds, and the registry that
  comes back is the registry that went in: no record, no provenance entry, no event.
\<close>

theorem malformed_request_rejected:
  assumes "\<not> valid_content_hash (req_content_hash req)
           \<or> (\<exists>d. submitted_doi req = Some d \<and> \<not> valid_doi d)"
  shows "\<exists>code. (code = INVALID_CONTENT_HASH \<or> code = INVALID_DOI)
           \<and> (\<forall>st. Register now req st = (Rejected code, st))"
proof (cases "valid_content_hash (req_content_hash req)")
  case False
  then have "validate_request req = Some INVALID_CONTENT_HASH"
    by (simp add: validate_request_def)
  then show ?thesis
    by (simp add: Register_def)
next
  case True
  then obtain d where "submitted_doi req = Some d" and "\<not> valid_doi d"
    using assms by blast
  then have "validate_request req = Some INVALID_DOI"
    using True by (simp add: validate_request_def)
  then show ?thesis
    by (simp add: Register_def)
qed

theorem malformed_request_rejected_witness:
  "\<not> valid_content_hash (req_content_hash (solar_request\<lparr>req_content_hash := ''abc123''\<rparr>))
   \<and> Register 30 (solar_request\<lparr>req_content_hash := ''abc123''\<rparr>) scenario_registry
       = (Rejected INVALID_CONTENT_HASH, scenario_registry)
   \<and> submitted_doi (solar_request\<lparr>req_doi := Some ''doi:not-a-doi''\<rparr>) = Some ''doi:not-a-doi''
   \<and> \<not> valid_doi ''doi:not-a-doi''
   \<and> Register 30 (solar_request\<lparr>req_doi := Some ''doi:not-a-doi''\<rparr>) scenario_registry
       = (Rejected INVALID_DOI, scenario_registry)"
proof -
  have a: "\<not> valid_content_hash (req_content_hash (solar_request\<lparr>req_content_hash := ''abc123''\<rparr>))"
    by code_simp
  have b: "submitted_doi (solar_request\<lparr>req_doi := Some ''doi:not-a-doi''\<rparr>) = Some ''doi:not-a-doi''"
    by code_simp
  have c: "\<not> valid_doi ''doi:not-a-doi''"
    by code_simp
  have d: "validate_request (solar_request\<lparr>req_content_hash := ''abc123''\<rparr>) = Some INVALID_CONTENT_HASH"
    by code_simp
  have e: "validate_request (solar_request\<lparr>req_doi := Some ''doi:not-a-doi''\<rparr>) = Some INVALID_DOI"
    by code_simp
  have "\<exists>code. (code = INVALID_CONTENT_HASH \<or> code = INVALID_DOI)
          \<and> (\<forall>st. Register 30 (solar_request\<lparr>req_content_hash := ''abc123''\<rparr>) st = (Rejected code, st))"
    using malformed_request_rejected [of "solar_request\<lparr>req_content_hash := ''abc123''\<rparr>" 30] a
    by blast
  moreover have "\<exists>code. (code = INVALID_CONTENT_HASH \<or> code = INVALID_DOI)
          \<and> (\<forall>st. Register 30 (solar_request\<lparr>req_doi := Some ''doi:not-a-doi''\<rparr>) st = (Rejected code, st))"
    using malformed_request_rejected [of "solar_request\<lparr>req_doi := Some ''doi:not-a-doi''\<rparr>" 30] b c
    by blast
  ultimately show ?thesis
    using a b c d e by (auto simp: Register_def)
qed






section \<open>The outbox\<close>








section \<open>The deduplication engine\<close>

























section \<open>The uniqueness constraints along a run\<close>

text \<open>
  The primary key and the constraint \<^verbatim>\<open>registry_documents_content_hash_unique\<close> hold of
  every table that the operations of the registry build from the empty one: an insert
  that would break them is refused, and the updates of the registry leave both columns
  alone.
\<close>

lemma insert_document_keeps_unique:
  assumes "insert_document r rows = Inr rows'"
    and "distinct (map document_id rows)" and "distinct (map content_hash rows)"
  shows "distinct (map document_id rows') \<and> distinct (map content_hash rows')"
proof -
  have "rows' = rows @ [r]"
    using assms(1) by (rule insert_document_appends)
  moreover have "document_id r \<notin> document_id ` set rows" and "content_hash r \<notin> content_hash ` set rows"
    using assms(1)
    by (auto simp: insert_document_def list_ex_iff content_hash_conflict_def split: if_splits)
  ultimately show ?thesis
    using assms(2,3) by simp
qed

lemma merge_keeps_columns:
  "map document_id (update_document now did (merge_update req) rows) = map document_id rows"
  "map content_hash (update_document now did (merge_update req) rows) = map content_hash rows"
  by (induction rows)
     (auto simp: update_document_def update_row_def update_updated_at_column_def merge_update_def)

lemma conditionalUpdateStatus_keeps_columns:
  assumes "conditionalUpdateStatus now did expected req rows = Some rows'"
  shows "map document_id rows' = map document_id rows \<and> map content_hash rows' = map content_hash rows"
proof -
  have "rows' = map (\<lambda>r. if document_id r = did \<and> status r = expected
                           then update_row now (transition_update now req) r else r) rows"
    using assms by (simp add: conditionalUpdateStatus_def split: if_splits)
  then show ?thesis
    by (simp add: update_row_def update_updated_at_column_def transition_update_def comp_def
        if_distrib cong: if_cong)
qed

lemma Register_keeps_unique:
  assumes "distinct (map document_id (documents st))" and "distinct (map content_hash (documents st))"
  shows "distinct (map document_id (documents (snd (Register now req st))))
         \<and> distinct (map content_hash (documents (snd (Register now req st))))"
proof (cases rule: Register_cases [of req now st])
  case (rejected code)
  then show ?thesis using assms by simp
next
  case (duplicate r)
  then show ?thesis
    using assms by (simp add: merge_duplicate_fields merge_keeps_columns)
next
  case (failure e)
  then show ?thesis using assms by simp
next
  case (new r rows')
  then show ?thesis
    using assms insert_document_keeps_unique [of r "documents st" rows']
    by (simp add: register_new_fields)
qed

lemma TransitionState_keeps_unique:
  assumes "distinct (map document_id (documents st))" and "distinct (map content_hash (documents st))"
  shows "distinct (map document_id (documents (snd (TransitionState now did req st))))
         \<and> distinct (map content_hash (documents (snd (TransitionState now did req st))))"
  using assms conditionalUpdateStatus_keeps_columns
  by (auto simp: TransitionState_def documents_appendAudit split: option.splits)

lemma unique_along_run:
  assumes "distinct (map document_id (documents st))" and "distinct (map content_hash (documents st))"
  shows "distinct (map document_id (documents (run_operations ops st)))
         \<and> distinct (map content_hash (documents (run_operations ops st)))"
  using assms
proof (induction ops arbitrary: st)
  case Nil
  then show ?case by simp
next
  case (Cons op ops)
  have "distinct (map document_id (documents (apply_operation op st)))
        \<and> distinct (map content_hash (documents (apply_operation op st)))"
    using Cons.prems
    by (cases op)
       (simp_all add: Register_keeps_unique TransitionState_keeps_unique documents_forward_event)
  then show ?case
    using Cons.IH by simp
qed

lemma unique_from_empty:
  "distinct (map document_id (documents (run_operations ops empty_registry)))
   \<and> distinct (map content_hash (documents (run_operations ops empty_registry)))"
  by (rule unique_along_run) (simp_all add: empty_registry_def)

end
